theory Spec2Isabelle
  imports Complex_Main
begin

section \<open>The ETA estimator of pyc3toc (\<open>c3toc/api.py\<close>)\<close>

text \<open>
  The class \<open>C3TOCAPI\<close> keeps a dictionary \<open>train_info\<close> from train names to a small
  record, and \<open>get_train_info\<close> updates it from one snapshot of the feed.

  Instants (\<open>datetime\<close>) are seconds since the first instant of 1970 on the UTC time
  line, and durations (\<open>timedelta\<close>, \<open>total_seconds()\<close>) are seconds. Positions, speeds
  and seconds are Python numbers; the model computes with them exactly, as rationals, so
  the rounding of floats and of \<open>timedelta\<close> to microseconds is left out. The HTTP request
  of \<open>get_trains\<close> is outside the model: a call of \<open>get_train_info\<close> is given the
  \<open>trains\<close> dictionary that the feed returned.

  The exceptions of the model are the \<open>ValueError\<close> of a timestamp that does not parse
  (line 90), the \<open>ZeroDivisionError\<close> of line 73, and the \<open>OverflowError\<close> of a
  \<open>timedelta\<close> or a \<open>datetime\<close> out of range (lines 142, 155 and 157).
\<close>

type_synonym datetime = rat

type_synonym sample = "datetime \<times> rat"

datatype error = ValueError | ZeroDivisionError | OverflowError

text \<open>The value of \<open>self.train_info[name]\<close>; \<open>None\<close> is the Python \<open>None\<close>.\<close>

record train_info =
  history :: "sample list"
  avg_speed :: "rat option"
  raw_eta :: "datetime option"
  eta :: "datetime option"
  arrived :: bool

text \<open>
  One value of the feed's \<open>trains\<close> dictionary, with its keys \<open>timestamp\<close> (a string) and
  \<open>trackmarker\<close> (a number).
\<close>

record train_data =
  data_timestamp :: string
  data_trackmarker :: rat

type_synonym train_infos = "string \<rightharpoonup> train_info"

text \<open>
  A call either returns or raises; in both cases the object's \<open>train_info\<close> dictionary
  is left in some state, which the outcome carries.
\<close>

datatype outcome = Return train_infos | Raise error train_infos

fun state_of :: "outcome \<Rightarrow> train_infos" where
  "state_of (Return info) = info"
| "state_of (Raise e info) = info"

fun raised :: "outcome \<Rightarrow> error option" where
  "raised (Return info) = None"
| "raised (Raise e info) = Some e"

subsection \<open>The ranges of \<open>timedelta\<close> and \<open>datetime\<close>\<close>

text \<open>
  \<open>timedelta(seconds=s)\<close> raises \<open>OverflowError\<close> unless the duration is between
  \<open>timedelta.min\<close>, which is -999999999 days, and \<open>timedelta.max\<close>, a microsecond less
  than 1000000000 days.
\<close>

definition timedelta_min :: rat where
  "timedelta_min = - (999999999 * 86400)"

definition timedelta_max :: rat where
  "timedelta_max = 1000000000 * 86400 - 1 / 1000000"

definition timedelta :: "rat \<Rightarrow> error + rat" where
  "timedelta seconds =
     (if timedelta_min \<le> seconds \<and> seconds \<le> timedelta_max then Inr seconds
      else Inl OverflowError)"

text \<open>
  Adding a \<open>timedelta\<close> to a \<open>datetime\<close> raises \<open>OverflowError\<close> unless the result is
  between \<open>datetime.min\<close>, the first instant of the year 1, and \<open>datetime.max\<close>, the
  last microsecond of the year 9999.
\<close>

definition datetime_min :: datetime where
  "datetime_min = - 62135596800"

definition datetime_max :: datetime where
  "datetime_max = 253402300800 - 1 / 1000000"

definition datetime_add :: "datetime \<Rightarrow> rat \<Rightarrow> error + datetime" where
  "datetime_add t d =
     (if datetime_min \<le> t + d \<and> t + d \<le> datetime_max then Inr (t + d)
      else Inl OverflowError)"

subsection \<open>\<open>_calc_avg_speed\<close>\<close>

text \<open>The \<open>for\<close> loop of lines 59 to 65, with \<open>new_history\<close> as accumulator.\<close>

fun filter_history :: "datetime \<Rightarrow> rat \<Rightarrow> sample list \<Rightarrow> sample list \<Rightarrow> sample list" where
  "filter_history now minutes [] new_history = new_history"
| "filter_history now minutes ((timestamp, trackmarker) # rest) new_history =
     (let seconds = now - timestamp in
      if seconds > minutes * 60 \<or> seconds < 0
      then filter_history now minutes rest new_history
      else filter_history now minutes rest (new_history @ [(timestamp, trackmarker)]))"

text \<open>
  The result is \<open>None\<close> for the source's \<open>None, None, None\<close> and otherwise the triple
  \<open>(avg_speed, seconds_delta, new_history)\<close>. The division of line 73 raises
  \<open>ZeroDivisionError\<close> when \<open>seconds_delta\<close> is zero. \<open>now\<close> is the reading of
  \<open>datetime.utcnow()\<close> at line 58.
\<close>

definition calc_avg_speed ::
  "sample list \<Rightarrow> rat \<Rightarrow> rat \<Rightarrow> datetime \<Rightarrow> error + (rat \<times> rat \<times> sample list) option" where
  "calc_avg_speed hist minutes track_length now =
     (let new_history = filter_history now minutes hist [] in
      if length new_history < 2 then Inr None
      else
        let trackmarker_delta = snd (last new_history) - snd (hd new_history);
            trackmarker_delta =
              (if trackmarker_delta < 0 then trackmarker_delta + track_length
               else trackmarker_delta);
            seconds_delta = fst (last new_history) - fst (hd new_history)
        in if seconds_delta = 0 then Inl ZeroDivisionError
           else Inr (Some (trackmarker_delta / seconds_delta, seconds_delta, new_history)))"

subsection \<open>The body of the loop of \<open>get_train_info\<close>\<close>

text \<open>Lines 93 to 100: the record of a train seen for the first time.\<close>

definition new_train :: train_info where
  "new_train = \<lparr>history = [], avg_speed = Some 0, raw_eta = None, eta = None, arrived = False\<rparr>"

text \<open>The record \<open>self.train_info[name]\<close> once lines 93 to 100 have run.\<close>

definition stored :: "train_infos \<Rightarrow> string \<Rightarrow> train_info" where
  "stored info name = (case info name of None \<Rightarrow> new_train | Some ti \<Rightarrow> ti)"

text \<open>Lines 102 to 104: add the current location if its timestamp is not yet present.\<close>

definition add_location :: "datetime \<Rightarrow> rat \<Rightarrow> sample list \<Rightarrow> sample list" where
  "add_location timestamp trackmarker hist =
     (if timestamp \<notin> set (map fst hist) then hist @ [(timestamp, trackmarker)] else hist)"

text \<open>Lines 116 to 119: the distance between display and train in track units.\<close>

definition display_distance :: "rat \<Rightarrow> rat \<Rightarrow> rat \<Rightarrow> rat" where
  "display_distance display_trackmarker trackmarker track_length =
     (let trackmarker_delta = display_trackmarker - trackmarker in
      if trackmarker_delta < 0 then trackmarker_delta + track_length else trackmarker_delta)"

text \<open>
  Lines 121 to 131: from the stored \<open>arrived\<close> flag and the distance, the new flag and
  the local \<open>allow_eta_jump\<close>.
\<close>

definition mark_arrived :: "bool \<Rightarrow> rat \<Rightarrow> rat \<Rightarrow> bool \<times> bool" where
  "mark_arrived was_arrived trackmarker_delta trackmarker_delta_arrived =
     (if trackmarker_delta < trackmarker_delta_arrived then (True, False)
      else (False, was_arrived))"

text \<open>
  Lines 137 to 142, for a train not marked as arrived. \<open>res\<close> is what
  \<open>_calc_avg_speed\<close> returned; with \<open>None, None, None\<close> the test \<open>seconds_delta is None\<close>
  holds. The last entry of the history is that of \<open>new_history\<close>, stored at line 114.
  Line 142 builds a \<open>timedelta\<close> and adds it to a \<open>datetime\<close>; both can raise.
\<close>

definition calc_raw_eta ::
  "(rat \<times> rat \<times> sample list) option \<Rightarrow> rat \<Rightarrow> error + datetime option" where
  "calc_raw_eta res trackmarker_delta =
     (case res of
        None \<Rightarrow> Inr None
      | Some (speed, seconds_delta, new_history) \<Rightarrow>
          if speed = 0 \<or> seconds_delta < 2 * 60 then Inr None
          else
            (case timedelta (trackmarker_delta / speed) of
               Inl e \<Rightarrow> Inl e
             | Inr d \<Rightarrow>
                 (case datetime_add (fst (last new_history)) d of
                    Inl e \<Rightarrow> Inl e
                  | Inr t \<Rightarrow> Inr (Some t))))"

text \<open>
  Lines 144 to 163: the soft ETA from the stored ETA and the raw one. A \<open>datetime\<close> is
  always true in Python, so \<open>eta or raw_eta\<close> is the stored ETA unless that is \<open>None\<close>.
  Lines 155 and 157 build a \<open>timedelta\<close> and add it to, or subtract it from, a
  \<open>datetime\<close>; both can raise.
\<close>

definition soft_eta ::
  "datetime option \<Rightarrow> datetime option \<Rightarrow> bool \<Rightarrow> rat \<Rightarrow> error + datetime option" where
  "soft_eta old_eta new_raw_eta allow_eta_jump eta_max_jump =
     (case new_raw_eta of
        None \<Rightarrow> Inr None
      | Some raw \<Rightarrow>
          if allow_eta_jump then Inr (Some raw)
          else
            let e = (case old_eta of Some e \<Rightarrow> e | None \<Rightarrow> raw);
                delta = raw - e
            in if delta > eta_max_jump then
                 (case timedelta eta_max_jump of
                    Inl err \<Rightarrow> Inl err
                  | Inr d \<Rightarrow> map_sum id Some (datetime_add e d))
               else if delta < - eta_max_jump then
                 (case timedelta eta_max_jump of
                    Inl err \<Rightarrow> Inl err
                  | Inr d \<Rightarrow> map_sum id Some (datetime_add e (- d)))
               else Inr (Some raw))"

text \<open>
  Lines 109 to 163: everything after \<open>_calc_avg_speed\<close> has returned \<open>res\<close>, on the
  record \<open>ti\<close> of the train, whose history already holds the current location. The result
  is the exception raised, if any, and the record as the lines leave it: line 142 raises
  before it stores \<open>raw_eta\<close>, lines 155 and 157 raise before line 161 stores \<open>eta\<close>.
\<close>

definition estimate ::
  "rat \<Rightarrow> rat \<Rightarrow> rat \<Rightarrow> rat \<Rightarrow> datetime \<Rightarrow> rat \<Rightarrow> (rat \<times> rat \<times> sample list) option
     \<Rightarrow> train_info \<Rightarrow> error option \<times> train_info" where
  "estimate display_trackmarker eta_max_jump trackmarker_delta_arrived track_length utcnow
       trackmarker res ti =
     (let ti = ti\<lparr>avg_speed := map_option fst res\<rparr>;
          ti = (case res of None \<Rightarrow> ti
                | Some (speed, seconds_delta, new_history) \<Rightarrow> ti\<lparr>history := new_history\<rparr>);
          trackmarker_delta = display_distance display_trackmarker trackmarker track_length;
          (now_arrived, allow_eta_jump) =
             mark_arrived (arrived ti) trackmarker_delta trackmarker_delta_arrived;
          ti = ti\<lparr>arrived := now_arrived\<rparr>
      in if arrived ti then (None, ti\<lparr>eta := Some utcnow, raw_eta := Some utcnow\<rparr>)
         else
           (case calc_raw_eta res trackmarker_delta of
              Inl e \<Rightarrow> (Some e, ti)
            | Inr raw \<Rightarrow>
                let ti = ti\<lparr>raw_eta := raw\<rparr>
                in (case soft_eta (eta ti) (raw_eta ti) allow_eta_jump eta_max_jump of
                      Inl e \<Rightarrow> (Some e, ti)
                    | Inr soft \<Rightarrow> (None, ti\<lparr>eta := soft\<rparr>))))"

text \<open>
  Lines 92 to 163: the body of the loop for one train whose timestamp has been parsed.
  \<open>utcnow\<close> is the reading of line 83 and \<open>now\<close> the one \<open>_calc_avg_speed\<close> takes. When
  \<open>_calc_avg_speed\<close> raises, the train's record exists and holds the current location.
\<close>

definition update_train ::
  "rat \<Rightarrow> rat \<Rightarrow> rat \<Rightarrow> rat \<Rightarrow> rat \<Rightarrow> datetime \<Rightarrow> datetime \<Rightarrow> string \<Rightarrow> datetime \<Rightarrow> rat
     \<Rightarrow> train_infos \<Rightarrow> outcome" where
  "update_train display_trackmarker eta_lookback eta_max_jump trackmarker_delta_arrived
       track_length utcnow now name timestamp trackmarker info =
     (let ti = stored info name;
          ti = ti\<lparr>history := add_location timestamp trackmarker (history ti)\<rparr>
      in case calc_avg_speed (history ti) eta_lookback track_length now of
           Inl e \<Rightarrow> Raise e (info(name \<mapsto> ti))
         | Inr res \<Rightarrow>
             (case estimate display_trackmarker eta_max_jump trackmarker_delta_arrived
                     track_length utcnow trackmarker res ti of
                (None, ti') \<Rightarrow> Return (info(name \<mapsto> ti'))
              | (Some e, ti') \<Rightarrow> Raise e (info(name \<mapsto> ti'))))"

subsection \<open>\<open>get_train_info\<close>\<close>

text \<open>
  The feed's \<open>trains\<close> dictionary is the list of its items, in the order the loop visits
  them. \<open>isoparse\<close> stands for \<open>dateutil.parser.isoparse\<close> followed by
  \<open>replace(tzinfo=None)\<close>: \<open>None\<close> when it raises \<open>ValueError\<close>. \<open>clock k\<close> is reading
  number \<open>k\<close> of \<open>datetime.utcnow()\<close> during the call: reading 0 at line 83, and one more
  in each iteration that reaches \<open>_calc_avg_speed\<close>.
\<close>

fun trains_loop ::
  "(string \<Rightarrow> datetime option) \<Rightarrow> (nat \<Rightarrow> datetime) \<Rightarrow> rat \<Rightarrow> rat \<Rightarrow> rat \<Rightarrow> rat \<Rightarrow> rat
     \<Rightarrow> nat \<Rightarrow> (string \<times> train_data) list \<Rightarrow> train_infos \<Rightarrow> outcome" where
  "trains_loop isoparse clock display_trackmarker eta_lookback eta_max_jump
       trackmarker_delta_arrived track_length pos [] info = Return info"
| "trains_loop isoparse clock display_trackmarker eta_lookback eta_max_jump
       trackmarker_delta_arrived track_length pos ((name, data) # trains) info =
     (case isoparse (data_timestamp data @ ''Z'') of
        None \<Rightarrow> Raise ValueError info
      | Some timestamp \<Rightarrow>
          (case update_train display_trackmarker eta_lookback eta_max_jump
                  trackmarker_delta_arrived track_length (clock 0) (clock (Suc pos))
                  name timestamp (data_trackmarker data) info of
             Raise e info' \<Rightarrow> Raise e info'
           | Return info' \<Rightarrow>
               trains_loop isoparse clock display_trackmarker eta_lookback eta_max_jump
                 trackmarker_delta_arrived track_length (Suc pos) trains info'))"

definition get_train_info ::
  "(string \<Rightarrow> datetime option) \<Rightarrow> (nat \<Rightarrow> datetime) \<Rightarrow> (string \<times> train_data) list
     \<Rightarrow> rat \<Rightarrow> rat \<Rightarrow> rat \<Rightarrow> rat \<Rightarrow> rat \<Rightarrow> train_infos \<Rightarrow> outcome" where
  "get_train_info isoparse clock trains display_trackmarker eta_lookback eta_max_jump
       trackmarker_delta_arrived track_length info =
     trains_loop isoparse clock display_trackmarker eta_lookback eta_max_jump
       trackmarker_delta_arrived track_length 0 trains info"

subsection \<open>Notions the properties are stated with\<close>

text \<open>A sample is in the lookback window when line 62 does not skip it.\<close>

definition in_window :: "datetime \<Rightarrow> rat \<Rightarrow> sample \<Rightarrow> bool" where
  "in_window now minutes s = (0 \<le> now - fst s \<and> now - fst s \<le> minutes * 60)"

text \<open>
  The average speed as the specification words it, for the samples that remain after
  filtering: the position of the last minus that of the first, plus \<open>track_length\<close> if
  that difference is negative, divided by the seconds between their timestamps.
\<close>

definition spec_avg_speed :: "sample list \<Rightarrow> rat \<Rightarrow> rat" where
  "spec_avg_speed samples track_length =
     (let d = snd (last samples) - snd (hd samples)
      in (if d < 0 then d + track_length else d)
           / (fst (last samples) - fst (hd samples)))"

text \<open>No stored history holds two samples with the same timestamp.\<close>

definition timestamps_distinct :: "train_infos \<Rightarrow> bool" where
  "timestamps_distinct info =
     (\<forall>name ti. info name = Some ti \<longrightarrow> distinct (map fst (history ti)))"

text \<open>
  A sequence of calls of \<open>get_train_info\<close> on one object, each with its clock, its
  snapshot of the feed and its arguments. A caller that catches an exception goes on with
  the dictionary as the failed call left it. The object starts with the empty dictionary
  (line 28).
\<close>

type_synonym call =
  "(nat \<Rightarrow> datetime) \<times> (string \<times> train_data) list \<times> rat \<times> rat \<times> rat \<times> rat \<times> rat"

fun calls :: "(string \<Rightarrow> datetime option) \<Rightarrow> call list \<Rightarrow> train_infos \<Rightarrow> train_infos" where
  "calls isoparse [] info = info"
| "calls isoparse ((clock, trains, display_trackmarker, eta_lookback, eta_max_jump,
       trackmarker_delta_arrived, track_length) # rest) info =
     calls isoparse rest
       (state_of (get_train_info isoparse clock trains display_trackmarker eta_lookback
          eta_max_jump trackmarker_delta_arrived track_length info))"

subsection \<open>Inputs of the examples\<close>

text \<open>
  An excerpt of \<open>isoparse\<close>: three timestamps of the first minutes of 1970, in seconds.
  The examples apply it to these and to a string that \<open>isoparse\<close> rejects. The clock of
  the examples starts a call at \<open>t\<close> and advances by a millisecond from one reading to
  the next.
\<close>

definition example_isoparse :: "string \<Rightarrow> datetime option" where
  "example_isoparse =
     map_of [(''1970-01-01T00:00:00Z'', 0), (''1970-01-01T00:01:00Z'', 60),
             (''1970-01-01T00:02:00Z'', 120)]"

definition ticking_clock :: "datetime \<Rightarrow> nat \<Rightarrow> datetime" where
  "ticking_clock t k = t + of_nat k / 1000"

section \<open>Auxiliary facts\<close>

lemma filter_history_eq:
  "filter_history now minutes hist acc = acc @ filter (in_window now minutes) hist"
  by (induction hist arbitrary: acc) (auto simp: in_window_def Let_def not_less)

lemma distinct_add_location:
  "distinct (map fst hist) \<Longrightarrow> distinct (map fst (add_location timestamp trackmarker hist))"
  by (simp add: add_location_def)

lemma hd_neq_last:
  assumes "distinct xs" "2 \<le> length xs"
  shows "hd xs \<noteq> last xs"
proof (cases xs)
  case Nil
  with assms show ?thesis by simp
next
  case (Cons x ys)
  with assms have "ys \<noteq> []" by auto
  then have "last xs \<in> set ys" using Cons by simp
  with assms Cons show ?thesis by auto
qed

lemma seconds_delta_nonzero:
  fixes hist :: "sample list"
  assumes "distinct (map fst hist)" "2 \<le> length hist"
  shows "fst (last hist) - fst (hd hist) \<noteq> 0"
proof -
  from assms have ne: "hist \<noteq> []" by auto
  from assms have "hd (map fst hist) \<noteq> last (map fst hist)"
    by (intro hd_neq_last) simp_all
  with ne show ?thesis by (auto simp: hd_map last_map)
qed

lemma calc_avg_speed_returns:
  assumes "distinct (map fst hist)"
  shows "\<exists>res. calc_avg_speed hist minutes track_length now = Inr res"
proof -
  let ?nh = "filter (in_window now minutes) hist"
  from assms have d: "distinct (map fst ?nh)" by (simp add: distinct_map_filter)
  show ?thesis
  proof (cases "length ?nh < 2")
    case True
    then show ?thesis by (simp add: calc_avg_speed_def filter_history_eq)
  next
    case False
    then have "fst (last ?nh) - fst (hd ?nh) \<noteq> 0"
      using seconds_delta_nonzero[OF d] by simp
    with False show ?thesis by (simp add: calc_avg_speed_def filter_history_eq Let_def)
  qed
qed

lemma stored_distinct:
  "timestamps_distinct info \<Longrightarrow> distinct (map fst (history (stored info name)))"
  by (auto simp: timestamps_distinct_def stored_def new_train_def split: option.splits)

lemma update_train_outcome:
  assumes "calc_avg_speed (add_location timestamp trackmarker (history (stored info name)))
             eta_lookback track_length now = Inr res"
  shows "state_of (update_train display_trackmarker eta_lookback eta_max_jump
            trackmarker_delta_arrived track_length utcnow now name timestamp trackmarker
            info) =
         info(name \<mapsto> snd (estimate display_trackmarker eta_max_jump
            trackmarker_delta_arrived track_length utcnow trackmarker res
            ((stored info name)\<lparr>history :=
               add_location timestamp trackmarker (history (stored info name))\<rparr>)))"
    and "raised (update_train display_trackmarker eta_lookback eta_max_jump
            trackmarker_delta_arrived track_length utcnow now name timestamp trackmarker
            info) =
         fst (estimate display_trackmarker eta_max_jump
            trackmarker_delta_arrived track_length utcnow trackmarker res
            ((stored info name)\<lparr>history :=
               add_location timestamp trackmarker (history (stored info name))\<rparr>))"
  using assms by (simp_all add: update_train_def Let_def split: prod.splits option.splits)

lemma outcome_eq:
  "raised out = None \<Longrightarrow> out = Return (state_of out)"
  "raised out = Some e \<Longrightarrow> out = Raise e (state_of out)"
  by (cases out; simp)+

lemma update_train_no_zero_division:
  assumes "timestamps_distinct info"
  shows "\<exists>res. calc_avg_speed (add_location timestamp trackmarker (history (stored info name)))
            eta_lookback track_length now = Inr res"
  using assms by (intro calc_avg_speed_returns distinct_add_location stored_distinct)

lemma estimate_history:
  "history (snd (estimate d mj za len utcnow tm res ti)) =
     (case res of None \<Rightarrow> history ti | Some (speed, seconds_delta, new_history) \<Rightarrow> new_history)"
  by (simp add: estimate_def Let_def split: option.splits prod.splits sum.splits)

lemma estimate_avg_speed:
  "avg_speed (snd (estimate d mj za len utcnow tm res ti)) = map_option fst res"
  by (simp add: estimate_def Let_def split: option.splits prod.splits sum.splits)

lemma estimate_arrived:
  "arrived (snd (estimate d mj za len utcnow tm res ti)) = (display_distance d tm len < za)"
  by (simp add: estimate_def Let_def mark_arrived_def split: option.splits prod.splits sum.splits)

lemma estimate_in_zone:
  "display_distance d tm len < za \<Longrightarrow>
   fst (estimate d mj za len utcnow tm res ti) = None \<and>
   eta (snd (estimate d mj za len utcnow tm res ti)) = Some utcnow \<and>
   raw_eta (snd (estimate d mj za len utcnow tm res ti)) = Some utcnow"
  by (simp add: estimate_def Let_def mark_arrived_def split: option.splits prod.splits)


lemma estimate_soft:
  "\<not> display_distance d tm len < za \<Longrightarrow>
   calc_raw_eta res (display_distance d tm len) = Inr raw \<Longrightarrow>
   soft_eta (eta ti) raw (arrived ti) mj = Inr soft \<Longrightarrow>
   fst (estimate d mj za len utcnow tm res ti) = None \<and>
   eta (snd (estimate d mj za len utcnow tm res ti)) = soft \<and>
   raw_eta (snd (estimate d mj za len utcnow tm res ti)) = raw"
  by (simp add: estimate_def Let_def mark_arrived_def split: option.splits prod.splits)

lemma estimate_returned:
  assumes "\<not> display_distance d tm len < za"
    and "fst (estimate d mj za len utcnow tm res ti) = None"
  shows "\<exists>raw. calc_raw_eta res (display_distance d tm len) = Inr raw \<and>
           raw_eta (snd (estimate d mj za len utcnow tm res ti)) = raw \<and>
           soft_eta (eta ti) raw (arrived ti) mj
             = Inr (eta (snd (estimate d mj za len utcnow tm res ti)))"
  using assms
  by (auto simp: estimate_def Let_def mark_arrived_def split: option.splits prod.splits sum.splits)

lemma calc_avg_speed_result:
  assumes "calc_avg_speed hist minutes track_length now = Inr res"
  shows "if length (filter (in_window now minutes) hist) < 2 then res = None
         else \<exists>speed seconds_delta.
                res = Some (speed, seconds_delta, filter (in_window now minutes) hist)"
  using assms
  by (auto simp: calc_avg_speed_def filter_history_eq Let_def split: if_splits)

lemma timestamps_distinct_update:
  assumes "timestamps_distinct info" and "distinct (map fst (history ti))"
  shows "timestamps_distinct (info(name \<mapsto> ti))"
  using assms by (simp add: timestamps_distinct_def)

lemma update_train_distinct:
  assumes "timestamps_distinct info"
  shows "timestamps_distinct
           (state_of (update_train display_trackmarker eta_lookback eta_max_jump
              trackmarker_delta_arrived track_length utcnow now name timestamp
              trackmarker info))"
    and "raised (update_train display_trackmarker eta_lookback eta_max_jump
              trackmarker_delta_arrived track_length utcnow now name timestamp
              trackmarker info) \<noteq> Some ZeroDivisionError"
    and "raised (update_train display_trackmarker eta_lookback eta_max_jump
              trackmarker_delta_arrived track_length utcnow now name timestamp
              trackmarker info) \<noteq> Some ValueError"
proof -
  let ?hist = "add_location timestamp trackmarker (history (stored info name))"
  let ?old = "(stored info name)\<lparr>history := ?hist\<rparr>"
  let ?est = "estimate display_trackmarker eta_max_jump trackmarker_delta_arrived
      track_length utcnow trackmarker"
  from update_train_no_zero_division[OF assms] obtain res where
    res: "calc_avg_speed ?hist eta_lookback track_length now = Inr res"
    by blast
  note out = update_train_outcome[OF res]
  have d: "distinct (map fst ?hist)"
    using assms by (intro distinct_add_location stored_distinct)
  then have "distinct (map fst (filter (in_window now eta_lookback) ?hist))"
    by (simp add: distinct_map_filter)
  with d calc_avg_speed_result[OF res]
  have "distinct (map fst (history (snd (?est res ?old))))"
    by (auto simp: estimate_history split: if_splits)
  with assms have "timestamps_distinct (info(name \<mapsto> snd (?est res ?old)))"
    by (rule timestamps_distinct_update)
  then show "timestamps_distinct
           (state_of (update_train display_trackmarker eta_lookback eta_max_jump
              trackmarker_delta_arrived track_length utcnow now name timestamp
              trackmarker info))"
    by (simp add: out)
  have "fst (?est res ?old) = None \<or> fst (?est res ?old) = Some OverflowError"
    by (auto simp: estimate_def Let_def calc_raw_eta_def soft_eta_def timedelta_def
        datetime_add_def split: option.splits prod.splits sum.splits if_splits)
  then show "raised (update_train display_trackmarker eta_lookback eta_max_jump
              trackmarker_delta_arrived track_length utcnow now name timestamp
              trackmarker info) \<noteq> Some ZeroDivisionError"
    and "raised (update_train display_trackmarker eta_lookback eta_max_jump
              trackmarker_delta_arrived track_length utcnow now name timestamp
              trackmarker info) \<noteq> Some ValueError"
    by (auto simp: out)
qed

lemma trains_loop_distinct:
  assumes "timestamps_distinct info"
  shows "timestamps_distinct
           (state_of (trains_loop isoparse clock display_trackmarker eta_lookback
              eta_max_jump trackmarker_delta_arrived track_length pos trains info)) \<and>
         raised (trains_loop isoparse clock display_trackmarker eta_lookback
              eta_max_jump trackmarker_delta_arrived track_length pos trains info)
           \<noteq> Some ZeroDivisionError"
  using assms
proof (induction trains arbitrary: pos info)
  case Nil
  then show ?case by simp
next
  case (Cons train trains)
  obtain name data where train: "train = (name, data)" by (cases train)
  show ?case
  proof (cases "isoparse (data_timestamp data @ ''Z'')")
    case None
    with Cons.prems train show ?thesis by simp
  next
    case (Some timestamp)
    let ?u = "update_train display_trackmarker eta_lookback eta_max_jump
         trackmarker_delta_arrived track_length (clock 0) (clock (Suc pos)) name timestamp
         (data_trackmarker data) info"
    from update_train_distinct[OF Cons.prems]
    have d: "timestamps_distinct (state_of ?u)" and z: "raised ?u \<noteq> Some ZeroDivisionError"
      by blast+
    show ?thesis
    proof (cases ?u)
      case (Return info')
      with d Some train Cons.IH[of info' "Suc pos"] show ?thesis by simp
    next
      case (Raise e info')
      with d z Some train show ?thesis by simp
    qed
  qed
qed

lemma trains_loop_append:
  "trains_loop isoparse clock display_trackmarker eta_lookback eta_max_jump
     trackmarker_delta_arrived track_length pos (trains @ rest) info =
   (case trains_loop isoparse clock display_trackmarker eta_lookback eta_max_jump
           trackmarker_delta_arrived track_length pos trains info of
      Raise e info' \<Rightarrow> Raise e info'
    | Return info' \<Rightarrow>
        trains_loop isoparse clock display_trackmarker eta_lookback eta_max_jump
          trackmarker_delta_arrived track_length (pos + length trains) rest info')"
proof (induction trains arbitrary: pos info)
  case Nil
  then show ?case by simp
next
  case (Cons train trains)
  obtain name data where train: "train = (name, data)" by (cases train)
  show ?case
    by (simp add: train Cons.IH split: option.splits outcome.splits)
qed

lemma calls_distinct:
  "timestamps_distinct info \<Longrightarrow> timestamps_distinct (calls isoparse cs info)"
proof (induction cs arbitrary: info)
  case Nil
  then show ?case by simp
next
  case (Cons c cs)
  obtain clock trains d lb mj za len where
    c: "c = (clock, trains, d, lb, mj, za, len)" by (cases c)
  from Cons.prems
  have "timestamps_distinct (state_of (get_train_info isoparse clock trains d lb mj za len info))"
    unfolding get_train_info_def using trains_loop_distinct by blast
  then show ?case using Cons.IH by (simp add: c)
qed

text \<open>
  Every state reached by calls on a new object has the property that the theorems below
  assume of the dictionary.
\<close>

lemma reachable_timestamps_distinct:
  "timestamps_distinct (calls isoparse cs Map.empty)"
  by (rule calls_distinct) (simp add: timestamps_distinct_def)

section \<open>Arrival\<close>

text \<open>
  C4. A train whose distance to the display (lines 116 to 119) is below
  \<open>trackmarker_delta_arrived\<close> on an evaluation is marked as arrived, and both its
  \<open>eta\<close> and its \<open>raw_eta\<close> are set to \<open>utcnow\<close>, the instant of the evaluation. The
  evaluation of the train returns, as the stored histories hold no timestamp twice.
\<close>

theorem arrived_sets_eta_to_now:
  assumes "timestamps_distinct info"
    and "display_distance display_trackmarker trackmarker track_length
           < trackmarker_delta_arrived"
  shows "\<exists>ti. update_train display_trackmarker eta_lookback eta_max_jump
                trackmarker_delta_arrived track_length utcnow now name timestamp
                trackmarker info = Return (info(name \<mapsto> ti)) \<and>
              arrived ti \<and> eta ti = Some utcnow \<and> raw_eta ti = Some utcnow"
proof -
  let ?hist = "add_location timestamp trackmarker (history (stored info name))"
  let ?est = "estimate display_trackmarker eta_max_jump trackmarker_delta_arrived
      track_length utcnow trackmarker"
  let ?u = "update_train display_trackmarker eta_lookback eta_max_jump
      trackmarker_delta_arrived track_length utcnow now name timestamp trackmarker info"
  from update_train_no_zero_division[OF assms(1)] obtain res where
    res: "calc_avg_speed ?hist eta_lookback track_length now = Inr res"
    by blast
  let ?ti = "snd (?est res ((stored info name)\<lparr>history := ?hist\<rparr>))"
  note out = update_train_outcome[OF res]
  note zone = estimate_in_zone[OF assms(2)]
  have "raised ?u = None" by (simp add: out zone)
  then have "?u = Return (info(name \<mapsto> ?ti))"
    using outcome_eq(1)[of ?u] by (simp add: out)
  then show ?thesis
    using assms(2) by (intro exI[of _ ?ti]) (simp add: zone estimate_arrived)
qed

text \<open>
  The scenario of the specification: a train at 990, then at 995 one minute later, on a
  track of length 1000 with the display at 0 and a zone of 20.
\<close>

theorem arrived_sets_eta_to_now_witness:
  "timestamps_distinct (state_of (update_train 0 5 10 20 1000 0 0 ''t'' 0 990 Map.empty)) \<and>
   display_distance 0 995 1000 < 20 \<and>
   (\<exists>ti. update_train 0 5 10 20 1000 60 60 ''t'' 60 995
            (state_of (update_train 0 5 10 20 1000 0 0 ''t'' 0 990 Map.empty)) =
          Return ((state_of (update_train 0 5 10 20 1000 0 0 ''t'' 0 990 Map.empty))
                    (''t'' \<mapsto> ti)) \<and>
          arrived ti \<and> eta ti = Some 60 \<and> raw_eta ti = Some 60)"
proof -
  have h1: "timestamps_distinct
      (state_of (update_train 0 5 10 20 1000 0 0 ''t'' 0 990 Map.empty))"
    by (simp add: timestamps_distinct_def update_train_def stored_def new_train_def
        add_location_def calc_avg_speed_def estimate_def display_distance_def
        mark_arrived_def)
  have h2: "display_distance 0 995 1000 < (20::rat)"
    by (simp add: display_distance_def)
  from h1 h2 arrived_sets_eta_to_now[OF h1 h2, of 5 10 60 60 "''t''" 60] show ?thesis
    by blast
qed




section \<open>The raw ETA and the soft ETA\<close>

text \<open>
  C6. A train that is not marked as arrived on this evaluation, and whose average speed
  is undefined (\<open>_calc_avg_speed\<close> returned \<open>None, None, None\<close>) or zero, or whose history
  spans less than two minutes: its \<open>raw_eta\<close> is set to \<open>None\<close> and so is its \<open>eta\<close>, also
  when the speed stored for the train is not zero.
\<close>

theorem insufficient_data_no_eta:
  assumes "\<not> display_distance display_trackmarker trackmarker track_length
             < trackmarker_delta_arrived"
    and "calc_avg_speed (add_location timestamp trackmarker (history (stored info name)))
           eta_lookback track_length now = Inr res"
    and "res = None \<or> (\<exists>speed seconds_delta new_history.
           res = Some (speed, seconds_delta, new_history) \<and>
           (speed = 0 \<or> seconds_delta < 2 * 60))"
  shows "\<exists>ti. update_train display_trackmarker eta_lookback eta_max_jump
                trackmarker_delta_arrived track_length utcnow now name timestamp
                trackmarker info = Return (info(name \<mapsto> ti)) \<and>
              avg_speed ti = map_option fst res \<and> raw_eta ti = None \<and> eta ti = None"
proof -
  let ?gap = "display_distance display_trackmarker trackmarker track_length"
  let ?hist = "add_location timestamp trackmarker (history (stored info name))"
  let ?old = "(stored info name)\<lparr>history := ?hist\<rparr>"
  let ?est = "estimate display_trackmarker eta_max_jump trackmarker_delta_arrived
      track_length utcnow trackmarker"
  let ?u = "update_train display_trackmarker eta_lookback eta_max_jump
      trackmarker_delta_arrived track_length utcnow now name timestamp trackmarker info"
  let ?ti = "snd (?est res ?old)"
  note out = update_train_outcome[OF assms(2)]
  from assms(3) have raw: "calc_raw_eta res ?gap = Inr None"
    by (auto simp: calc_raw_eta_def)
  have soft: "soft_eta (eta ?old) None (arrived ?old) eta_max_jump = Inr None"
    by (simp add: soft_eta_def)
  note est = estimate_soft[OF assms(1) raw soft]
  have "raised ?u = None" by (simp add: out est)
  then have "?u = Return (info(name \<mapsto> ?ti))"
    using outcome_eq(1)[of ?u] by (simp add: out)
  then show ?thesis
    by (intro exI[of _ ?ti]) (simp add: est estimate_avg_speed)
qed

text \<open>
  The scenario of the specification: a train at 500, then at 520 sixty seconds later,
  with the display at 0 on a track of length 1000. The speed is 1/3, the span of 60
  seconds is under two minutes, and the train gets no ETA.
\<close>

theorem insufficient_data_no_eta_witness:
  "\<not> display_distance 0 520 1000 < 20 \<and>
   calc_avg_speed (add_location 60 520
       (history (stored (state_of (update_train 0 5 10 20 1000 0 0 ''t'' 0 500 Map.empty))
          ''t'')))
     5 1000 60 = Inr (Some (1 / 3, 60, [(0, 500), (60, 520)])) \<and>
   (\<exists>ti. update_train 0 5 10 20 1000 60 60 ''t'' 60 520
            (state_of (update_train 0 5 10 20 1000 0 0 ''t'' 0 500 Map.empty)) =
          Return ((state_of (update_train 0 5 10 20 1000 0 0 ''t'' 0 500 Map.empty))
                    (''t'' \<mapsto> ti)) \<and>
          avg_speed ti = Some (1 / 3) \<and> raw_eta ti = None \<and> eta ti = None)"
proof -
  have h1: "\<not> display_distance 0 520 1000 < (20::rat)"
    by (simp add: display_distance_def)
  have h2: "calc_avg_speed (add_location 60 520
       (history (stored (state_of (update_train 0 5 10 20 1000 0 0 ''t'' 0 500 Map.empty))
          ''t'')))
     5 1000 60 = Inr (Some (1 / 3, 60, [(0, 500), (60, 520)]))"
    by (simp add: update_train_def stored_def new_train_def add_location_def
        calc_avg_speed_def estimate_def display_distance_def mark_arrived_def
        calc_raw_eta_def soft_eta_def)
  have h3: "Some (1 / 3, 60, [(0, 500), (60, 520)]) = None \<or>
      (\<exists>speed seconds_delta new_history.
           Some (1 / 3, 60, [(0, 500), (60, 520)]) =
             Some (speed, seconds_delta, new_history) \<and>
           (speed = (0::rat) \<or> seconds_delta < (2::rat) * 60))"
    by (intro disjI2 exI[of _ "1 / 3"] exI[of _ 60] exI[of _ "[(0, 500), (60, 520)]"])
      simp
  from h1 h2 insufficient_data_no_eta[OF h1 h2 h3, of 10 60] show ?thesis
    by simp
qed

text \<open>
  C1, as stated, fails: a train that stays in the zone of the display gets \<open>utcnow\<close> as
  its ETA on every evaluation (line 135), so between two evaluations 30 seconds apart the
  ETA moves by 30 seconds, more than an \<open>eta_max_jump\<close> of 10. \<open>allow_eta_jump\<close> is false
  in both evaluations.
\<close>

theorem eta_jump_counterexample:
  "map_option eta
     (state_of (update_train 0 5 10 20 1000 0 0 ''t'' 0 990 Map.empty) ''t'')
     = Some (Some 0) \<and>
   map_option eta
     (state_of (update_train 0 5 10 20 1000 30 30 ''t'' 30 990
        (state_of (update_train 0 5 10 20 1000 0 0 ''t'' 0 990 Map.empty))) ''t'')
     = Some (Some 30) \<and>
   snd (mark_arrived False (display_distance 0 990 1000) 20) = False \<and>
   snd (mark_arrived True (display_distance 0 990 1000) 20) = False \<and>
   \<not> \<bar>30 - 0\<bar> \<le> (10::rat)"
  by (simp add: update_train_def stored_def new_train_def add_location_def
      calc_avg_speed_def estimate_def display_distance_def mark_arrived_def)

text \<open>
  C1, amended. The bound holds for a train that this evaluation does not mark as arrived
  and for which it allows no jump (so the train was not marked as arrived before either),
  with \<open>eta_max_jump\<close> not negative: if the stored ETA and the new one are both defined,
  they differ by at most \<open>eta_max_jump\<close> seconds.
\<close>

theorem eta_jump_bounded_outside_zone:
  assumes "info name = Some old"
    and "update_train display_trackmarker eta_lookback eta_max_jump
           trackmarker_delta_arrived track_length utcnow now name timestamp trackmarker
           info = Return info'"
    and "info' name = Some new"
    and "mark_arrived (arrived old)
           (display_distance display_trackmarker trackmarker track_length)
           trackmarker_delta_arrived = (False, False)"
    and "0 \<le> eta_max_jump"
    and "eta old = Some e_old" and "eta new = Some e_new"
  shows "\<bar>e_new - e_old\<bar> \<le> eta_max_jump"
proof -
  let ?gap = "display_distance display_trackmarker trackmarker track_length"
  let ?hist = "add_location timestamp trackmarker (history old)"
  let ?est = "estimate display_trackmarker eta_max_jump trackmarker_delta_arrived
      track_length utcnow trackmarker"
  from assms(1) have st: "stored info name = old" by (simp add: stored_def)
  from assms(4)
  have out: "\<not> ?gap < trackmarker_delta_arrived" and na: "\<not> arrived old"
    by (auto simp: mark_arrived_def split: if_splits)
  from assms(2) st obtain res where
    res: "calc_avg_speed ?hist eta_lookback track_length now = Inr res"
    by (auto simp: update_train_def Let_def split: sum.splits)
  let ?u = "update_train display_trackmarker eta_lookback eta_max_jump
      trackmarker_delta_arrived track_length utcnow now name timestamp trackmarker info"
  have "state_of ?u = info(name \<mapsto> snd (?est res (old\<lparr>history := ?hist\<rparr>)))"
    and "raised ?u = fst (?est res (old\<lparr>history := ?hist\<rparr>))"
    using update_train_outcome[of timestamp trackmarker info name, unfolded st, OF res]
    by simp_all
  with assms(2,3)
  have new: "new = snd (?est res (old\<lparr>history := ?hist\<rparr>))"
    and ok: "fst (?est res (old\<lparr>history := ?hist\<rparr>)) = None"
    by simp_all
  from estimate_returned[OF out ok] obtain raw where
    "soft_eta (Some e_old) raw False eta_max_jump = Inr (Some e_new)"
    using na assms(6,7) by (auto simp: new)
  with assms(5) show ?thesis
    by (auto simp: soft_eta_def Let_def timedelta_def datetime_add_def
        split: option.splits if_splits sum.splits)
qed

text \<open>
  A train with samples at 100 and 200 two minutes apart and an ETA of 1080, seen one
  minute later at 260: the raw ETA drops to 1012.5, the ETA only to 1070.
\<close>

theorem eta_jump_bounded_outside_zone_witness:
  "update_train 0 5 10 20 1000 180 180 ''t'' 180 260
     [''t'' \<mapsto> \<lparr>history = [(0, 100), (120, 200)], avg_speed = Some (5 / 6),
                 raw_eta = Some 1080, eta = Some 1080, arrived = False\<rparr>] =
   Return [''t'' \<mapsto> \<lparr>history = [(0, 100), (120, 200), (180, 260)],
                       avg_speed = Some (8 / 9), raw_eta = Some (2025 / 2),
                       eta = Some 1070, arrived = False\<rparr>] \<and>
   mark_arrived False (display_distance 0 260 1000) 20 = (False, False) \<and>
   (0::rat) \<le> 10 \<and> \<bar>1070 - 1080\<bar> \<le> (10::rat)"
proof -
  let ?old = "\<lparr>history = [(0, 100), (120, 200)], avg_speed = Some (5 / 6),
      raw_eta = Some (1080::rat), eta = Some (1080::rat), arrived = False\<rparr>"
  let ?new = "\<lparr>history = [(0, 100), (120, 200), (180, 260)],
      avg_speed = Some (8 / 9), raw_eta = Some (2025 / 2 :: rat),
      eta = Some (1070::rat), arrived = False\<rparr>"
  have h1: "[''t'' \<mapsto> ?old] ''t'' = Some ?old" by simp
  have h2: "update_train 0 5 10 20 1000 180 180 ''t'' 180 260 [''t'' \<mapsto> ?old] =
      Return [''t'' \<mapsto> ?new]"
    by (simp add: update_train_def stored_def add_location_def calc_avg_speed_def
        estimate_def display_distance_def mark_arrived_def calc_raw_eta_def soft_eta_def
        timedelta_def timedelta_min_def timedelta_max_def datetime_add_def
        datetime_min_def datetime_max_def)
  have h3: "[''t'' \<mapsto> ?new] ''t'' = Some ?new" by simp
  have h4: "mark_arrived (arrived ?old) (display_distance 0 260 1000) 20 = (False, False)"
    by (simp add: display_distance_def mark_arrived_def)
  have h5: "(0::rat) \<le> 10" by simp
  have h6: "eta ?old = Some 1080" by simp
  have h7: "eta ?new = Some 1070" by simp
  from h2 h4 h5 eta_jump_bounded_outside_zone[OF h1 h2 h3 h4 h5 h6 h7] show ?thesis
    by simp
qed

section \<open>The history and the average speed\<close>

text \<open>
  C2, as stated, fails: when fewer than two samples remain after filtering,
  \<open>_calc_avg_speed\<close> returns \<open>None\<close> for the history and line 113 keeps the stored one.
  A train first seen with a timestamp 1000 seconds old, with a lookback of 5 minutes:
  no sample remains after filtering, and the stored history holds the old sample.
\<close>

theorem history_not_replaced_counterexample:
  "filter_history 1000 5 [(0, 500)] [] = [] \<and>
   map_option history
     (state_of (update_train 0 5 10 20 1000 1000 1000 ''t'' 0 500 Map.empty) ''t'')
     = Some [(0, 500)] \<and>
   map_option avg_speed
     (state_of (update_train 0 5 10 20 1000 1000 1000 ''t'' 0 500 Map.empty) ''t'')
     = Some None \<and>
   \<not> in_window 1000 5 (0, 500)"
  by (simp add: update_train_def stored_def new_train_def add_location_def
      calc_avg_speed_def estimate_def display_distance_def mark_arrived_def
      calc_raw_eta_def soft_eta_def in_window_def)

text \<open>
  C2, amended. On every evaluation of a train the history, with the current location
  added, is filtered to the samples in the lookback window. When at least two samples
  remain, the stored history is replaced by the filtered one, so every stored sample is
  within \<open>eta_lookback\<close> minutes of \<open>now\<close> and none is in the future. When fewer than two
  remain, the average speed is \<open>None\<close> and the stored history is the unfiltered one. This
  is so whether the evaluation returns or line 142, 155 or 157 raises \<open>OverflowError\<close>.
\<close>

theorem history_replaced_when_two_remain:
  assumes "timestamps_distinct info"
  shows "\<exists>ti. (update_train display_trackmarker eta_lookback eta_max_jump
                 trackmarker_delta_arrived track_length utcnow now name timestamp
                 trackmarker info = Return (info(name \<mapsto> ti)) \<or>
               update_train display_trackmarker eta_lookback eta_max_jump
                 trackmarker_delta_arrived track_length utcnow now name timestamp
                 trackmarker info = Raise OverflowError (info(name \<mapsto> ti))) \<and>
              (if 2 \<le> length (filter (in_window now eta_lookback)
                     (add_location timestamp trackmarker (history (stored info name))))
               then history ti = filter (in_window now eta_lookback)
                      (add_location timestamp trackmarker (history (stored info name))) \<and>
                    (\<forall>s \<in> set (history ti). in_window now eta_lookback s)
               else history ti =
                      add_location timestamp trackmarker (history (stored info name)) \<and>
                    avg_speed ti = None)"
proof -
  let ?hist = "add_location timestamp trackmarker (history (stored info name))"
  let ?old = "(stored info name)\<lparr>history := ?hist\<rparr>"
  let ?est = "estimate display_trackmarker eta_max_jump trackmarker_delta_arrived
      track_length utcnow trackmarker"
  let ?u = "update_train display_trackmarker eta_lookback eta_max_jump
      trackmarker_delta_arrived track_length utcnow now name timestamp trackmarker info"
  from update_train_no_zero_division[OF assms] obtain res where
    res: "calc_avg_speed ?hist eta_lookback track_length now = Inr res"
    by blast
  let ?ti = "snd (?est res ?old)"
  have state: "state_of ?u = info(name \<mapsto> ?ti)"
    using update_train_outcome(1)[OF res] by simp
  have "raised ?u = None \<or> raised ?u = Some OverflowError"
    using update_train_distinct(2,3)[OF assms, of display_trackmarker eta_lookback
        eta_max_jump trackmarker_delta_arrived track_length utcnow now name timestamp
        trackmarker]
    by (cases "raised ?u"; simp; case_tac a; simp)
  then have "?u = Return (info(name \<mapsto> ?ti)) \<or> ?u = Raise OverflowError (info(name \<mapsto> ?ti))"
    using outcome_eq[of ?u] by (auto simp: state)
  moreover from calc_avg_speed_result[OF res]
  have "if 2 \<le> length (filter (in_window now eta_lookback) ?hist)
        then history ?ti = filter (in_window now eta_lookback) ?hist \<and>
             (\<forall>s \<in> set (history ?ti). in_window now eta_lookback s)
        else history ?ti = ?hist \<and> avg_speed ?ti = None"
    by (auto simp: estimate_history estimate_avg_speed split: if_splits)
  ultimately show ?thesis
    by (intro exI[of _ ?ti] conjI)
qed

text \<open>
  A train with samples at the instants 0, 200 and 320, evaluated at 400 with a new
  sample and a lookback of 5 minutes: the sample of instant 0 is dropped.
\<close>

theorem history_replaced_when_two_remain_witness:
  "timestamps_distinct
     [''t'' \<mapsto> \<lparr>history = [(0, 100), (200, 300), (320, 400)], avg_speed = Some (15 / 16),
                 raw_eta = None, eta = None, arrived = False\<rparr>] \<and>
   (\<exists>ti. update_train 0 5 10 20 1000 400 400 ''t'' 400 500
       [''t'' \<mapsto> \<lparr>history = [(0, 100), (200, 300), (320, 400)],
                   avg_speed = Some (15 / 16), raw_eta = None, eta = None,
                   arrived = False\<rparr>] =
      Return ([''t'' \<mapsto> \<lparr>history = [(0, 100), (200, 300), (320, 400)],
                   avg_speed = Some (15 / 16), raw_eta = None, eta = None,
                   arrived = False\<rparr>](''t'' \<mapsto> ti)) \<and>
      history ti = [(200, 300), (320, 400), (400, 500)])"
proof -
  let ?old = "\<lparr>history = [(0, 100), (200, 300), (320, 400)],
      avg_speed = Some (15 / 16 :: rat), raw_eta = None :: rat option,
      eta = None :: rat option, arrived = False\<rparr>"
  have h1: "timestamps_distinct [''t'' \<mapsto> ?old]"
    by (simp add: timestamps_distinct_def)
  have f: "filter (in_window 400 5)
      (add_location 400 500 (history (stored [''t'' \<mapsto> ?old] ''t''))) =
      [(200, 300), (320, 400), (400, 500)]"
    by (simp add: stored_def add_location_def in_window_def)
  have r: "raised (update_train 0 5 10 20 1000 400 400 ''t'' 400 500 [''t'' \<mapsto> ?old])
      = None"
    by (simp add: update_train_def stored_def add_location_def calc_avg_speed_def
        estimate_def display_distance_def mark_arrived_def calc_raw_eta_def soft_eta_def
        timedelta_def timedelta_min_def timedelta_max_def datetime_add_def
        datetime_min_def datetime_max_def)
  from history_replaced_when_two_remain[OF h1, of 0 5 10 20 1000 400 400 "''t''" 400 500]
  have "\<exists>ti. update_train 0 5 10 20 1000 400 400 ''t'' 400 500 [''t'' \<mapsto> ?old] =
      Return ([''t'' \<mapsto> ?old](''t'' \<mapsto> ti)) \<and>
      history ti = [(200, 300), (320, 400), (400, 500)]"
    unfolding f using r by auto
  with h1 show ?thesis by blast
qed

text \<open>
  C3, as stated, fails: the samples of the history are in the order in which they were
  added, and the speed divides by the last timestamp minus the first. A feed that reports
  the instant 100 with position 10 and then the instant 50 with position 20 leaves the
  history \<open>[(100, 10), (50, 20)]\<close>; both positions are on the track of length 1000, and
  the average speed is negative.
\<close>

theorem avg_speed_negative_counterexample:
  "calc_avg_speed [(100, 10), (50, 20)] 5 1000 110
     = Inr (Some (- (1 / 5), - 50, [(100, 10), (50, 20)])) \<and>
   map_option avg_speed
     (state_of (update_train 0 5 10 20 1000 110 110 ''t'' 50 20
        (state_of (update_train 0 5 10 20 1000 100 100 ''t'' 100 10 Map.empty))) ''t'')
     = Some (Some (- (1 / 5))) \<and>
   \<not> (0::rat) \<le> - (1 / 5)"
  by (simp add: update_train_def stored_def new_train_def add_location_def
      calc_avg_speed_def estimate_def display_distance_def mark_arrived_def
      calc_raw_eta_def soft_eta_def timedelta_def timedelta_min_def timedelta_max_def
      datetime_add_def datetime_min_def datetime_max_def)

text \<open>
  C3, amended. For a history with at least two samples in the window, the first of them
  older than the last: the average speed is the one of the specification, the last
  position minus the first, plus \<open>track_length\<close> if that is negative, divided by the
  seconds between the two timestamps; and it is not negative when the positions are in
  \<open>[0, track_length)\<close>.
\<close>

theorem avg_speed_formula:
  assumes "new_history = filter (in_window now minutes) hist"
    and "2 \<le> length new_history"
    and "fst (hd new_history) < fst (last new_history)"
  shows "calc_avg_speed hist minutes track_length now =
           Inr (Some (spec_avg_speed new_history track_length,
                      fst (last new_history) - fst (hd new_history), new_history)) \<and>
         ((\<forall>s \<in> set new_history. 0 \<le> snd s \<and> snd s < track_length)
            \<longrightarrow> 0 \<le> spec_avg_speed new_history track_length)"
proof -
  let ?d = "snd (last new_history) - snd (hd new_history)"
  let ?n = "if ?d < 0 then ?d + track_length else ?d"
  let ?s = "fst (last new_history) - fst (hd new_history)"
  from assms(2) have ne: "new_history \<noteq> []" by auto
  from assms(3) have pos: "0 < ?s" by simp
  have sp: "spec_avg_speed new_history track_length = ?n / ?s"
    by (simp add: spec_avg_speed_def Let_def)
  have "calc_avg_speed hist minutes track_length now = Inr (Some (?n / ?s, ?s, new_history))"
    using assms(1,2) pos by (simp add: calc_avg_speed_def filter_history_eq Let_def)
  moreover have "0 \<le> ?n / ?s"
    if "\<forall>s \<in> set new_history. 0 \<le> snd s \<and> snd s < track_length"
  proof -
    from that ne have "0 \<le> snd (last new_history)" "snd (hd new_history) < track_length"
      by simp_all
    then have "0 \<le> ?n" by simp
    with pos show ?thesis by simp
  qed
  ultimately show ?thesis unfolding sp by blast
qed

text \<open>
  A train that passes the end of a track of length 1000 between two samples two minutes
  apart: from 900 to 50 is a distance of 150.
\<close>

theorem avg_speed_formula_witness:
  "[(0, 900), (120, 50)] = filter (in_window 120 5) [(0, 900), (120, 50)] \<and>
   2 \<le> length [(0 :: rat, 900 :: rat), (120, 50)] \<and>
   fst (hd [(0 :: rat, 900 :: rat), (120, 50)]) < fst (last [(0, 900), (120, 50)]) \<and>
   list_all (\<lambda>s. 0 \<le> snd s \<and> snd s < 1000) [(0 :: rat, 900 :: rat), (120, 50)] \<and>
   calc_avg_speed [(0, 900), (120, 50)] 5 1000 120
     = Inr (Some (5 / 4, 120, [(0, 900), (120, 50)])) \<and>
   0 \<le> spec_avg_speed [(0, 900), (120, 50)] 1000"
proof -
  have h1: "[(0, 900), (120, 50)] = filter (in_window 120 5) [(0, 900), (120, 50)]"
    by (simp add: in_window_def)
  have h2: "2 \<le> length [(0 :: rat, 900 :: rat), (120, 50)]" by simp
  have h3: "fst (hd [(0 :: rat, 900 :: rat), (120, 50)]) < fst (last [(0, 900), (120, 50)])"
    by simp
  have h4: "\<forall>s \<in> set [(0 :: rat, 900 :: rat), (120, 50)]. 0 \<le> snd s \<and> snd s < 1000"
    by simp
  have sp: "spec_avg_speed [(0, 900), (120, 50)] 1000 = 5 / 4"
    by (simp add: spec_avg_speed_def)
  from h4 avg_speed_formula[OF h1 h2 h3, of 1000]
  have r: "calc_avg_speed [(0, 900), (120, 50)] 5 1000 120
     = Inr (Some (5 / 4, 120, [(0, 900), (120, 50)])) \<and>
     0 \<le> spec_avg_speed [(0, 900), (120, 50)] 1000"
    unfolding sp by simp
  have h5: "list_all (\<lambda>s. 0 \<le> snd s \<and> snd s < 1000) [(0 :: rat, 900 :: rat), (120, 50)]"
    by simp
  from h1 h2 h3 h5 r show ?thesis by blast
qed

text \<open>
  C9, as stated, fails in its second half: a new sample goes to the end of the history
  (line 104) and nothing sorts the history. A feed that reports the instant 60 and, on the
  next call, the instant 0 leaves the history \<open>[(60, 10), (0, 20)]\<close>, whose timestamps
  decrease.
\<close>

theorem history_order_counterexample:
  "map_option history
     (calls example_isoparse
        [(ticking_clock 100,
          [(''t'', \<lparr>data_timestamp = ''1970-01-01T00:01:00'', data_trackmarker = 10\<rparr>)],
          0, 5, 10, 20, 1000),
         (ticking_clock 110,
          [(''t'', \<lparr>data_timestamp = ''1970-01-01T00:00:00'', data_trackmarker = 20\<rparr>)],
          0, 5, 10, 20, 1000)]
        Map.empty ''t'')
     = Some [(60, 10), (0, 20)] \<and>
   \<not> sorted (map fst [(60 :: rat, 10 :: rat), (0, 20)])"
  by (simp add: get_train_info_def example_isoparse_def ticking_clock_def
      update_train_def stored_def new_train_def add_location_def
      calc_avg_speed_def estimate_def display_distance_def mark_arrived_def
      calc_raw_eta_def soft_eta_def timedelta_def timedelta_min_def timedelta_max_def
      datetime_add_def datetime_min_def datetime_max_def)

text \<open>
  C9, amended. After every sequence of calls on a new object, whatever the feed reported
  and whether or not a call raised, no stored history holds two samples with the same
  timestamp. The samples are in the order in which they were added.
\<close>

theorem history_timestamps_distinct:
  assumes "calls isoparse cs Map.empty name = Some ti"
  shows "distinct (map fst (history ti))"
  using assms reachable_timestamps_distinct[of isoparse cs]
  by (simp add: timestamps_distinct_def)

text \<open>Three calls, the last of which reports the timestamp of the first again.\<close>

theorem history_timestamps_distinct_witness:
  "calls example_isoparse
     [(ticking_clock 0,
       [(''t'', \<lparr>data_timestamp = ''1970-01-01T00:00:00'', data_trackmarker = 10\<rparr>)],
       0, 5, 10, 20, 1000),
      (ticking_clock 60,
       [(''t'', \<lparr>data_timestamp = ''1970-01-01T00:01:00'', data_trackmarker = 20\<rparr>)],
       0, 5, 10, 20, 1000),
      (ticking_clock 90,
       [(''t'', \<lparr>data_timestamp = ''1970-01-01T00:00:00'', data_trackmarker = 30\<rparr>)],
       0, 5, 10, 20, 1000)]
     Map.empty ''t''
   = Some \<lparr>history = [(0, 10), (60, 20)], avg_speed = Some (1 / 6), raw_eta = None,
            eta = None, arrived = False\<rparr> \<and>
   distinct (map fst [(0 :: rat, 10 :: rat), (60, 20)])"
proof -
  have h: "calls example_isoparse
     [(ticking_clock 0,
       [(''t'', \<lparr>data_timestamp = ''1970-01-01T00:00:00'', data_trackmarker = 10\<rparr>)],
       0, 5, 10, 20, 1000),
      (ticking_clock 60,
       [(''t'', \<lparr>data_timestamp = ''1970-01-01T00:01:00'', data_trackmarker = 20\<rparr>)],
       0, 5, 10, 20, 1000),
      (ticking_clock 90,
       [(''t'', \<lparr>data_timestamp = ''1970-01-01T00:00:00'', data_trackmarker = 30\<rparr>)],
       0, 5, 10, 20, 1000)]
     Map.empty ''t''
   = Some \<lparr>history = [(0, 10), (60, 20)], avg_speed = Some (1 / 6), raw_eta = None,
            eta = None, arrived = False\<rparr>"
    by (simp add: get_train_info_def example_isoparse_def ticking_clock_def
        update_train_def stored_def new_train_def add_location_def
        calc_avg_speed_def estimate_def display_distance_def mark_arrived_def
        calc_raw_eta_def soft_eta_def timedelta_def timedelta_min_def timedelta_max_def
      datetime_add_def datetime_min_def datetime_max_def)
  from h history_timestamps_distinct[OF h] show ?thesis by simp
qed

text \<open>
  C10, as stated, fails in its last part: the position reported with a timestamp that the
  history already holds is not stored, but lines 117 and 142 use it for the distance to
  the display and so for the ETA. A train seen at 100 and, two minutes later, at 200 has
  an ETA of 1080. When the feed then reports the instant 120 again: with the stored
  position 200 the ETA stays 1080, with the position 300 it becomes 1070, and the history
  is the same.
\<close>

theorem duplicate_timestamp_counterexample:
  "update_train 0 5 10 20 1000 120 120 ''t'' 120 200
     (state_of (update_train 0 5 10 20 1000 0 0 ''t'' 0 100 Map.empty)) =
   Return [''t'' \<mapsto> \<lparr>history = [(0, 100), (120, 200)], avg_speed = Some (5 / 6),
                       raw_eta = Some 1080, eta = Some 1080, arrived = False\<rparr>] \<and>
   update_train 0 5 10 20 1000 150 150 ''t'' 120 200
     [''t'' \<mapsto> \<lparr>history = [(0, 100), (120, 200)], avg_speed = Some (5 / 6),
                 raw_eta = Some 1080, eta = Some 1080, arrived = False\<rparr>] =
   Return [''t'' \<mapsto> \<lparr>history = [(0, 100), (120, 200)], avg_speed = Some (5 / 6),
                       raw_eta = Some 1080, eta = Some 1080, arrived = False\<rparr>] \<and>
   update_train 0 5 10 20 1000 150 150 ''t'' 120 300
     [''t'' \<mapsto> \<lparr>history = [(0, 100), (120, 200)], avg_speed = Some (5 / 6),
                 raw_eta = Some 1080, eta = Some 1080, arrived = False\<rparr>] =
   Return [''t'' \<mapsto> \<lparr>history = [(0, 100), (120, 200)], avg_speed = Some (5 / 6),
                       raw_eta = Some 960, eta = Some 1070, arrived = False\<rparr>]"
  by (simp add: update_train_def stored_def new_train_def add_location_def
      calc_avg_speed_def estimate_def display_distance_def mark_arrived_def
      calc_raw_eta_def soft_eta_def timedelta_def timedelta_min_def timedelta_max_def
      datetime_add_def datetime_min_def datetime_max_def)

text \<open>
  C10, amended. Adding a sample whose timestamp the history of the train already holds
  leaves the history unchanged, also when the reported position differs from the stored
  one; and the reported position has no influence on the history and the average speed
  that the evaluation stores. (It does enter the distance to the display, and with it
  \<open>arrived\<close>, \<open>raw_eta\<close> and \<open>eta\<close>.)
\<close>

theorem duplicate_timestamp_keeps_history_and_speed:
  assumes "timestamp \<in> fst ` set (history (stored info name))"
  shows "add_location timestamp trackmarker (history (stored info name))
           = history (stored info name) \<and>
         map_option history
           (state_of (update_train display_trackmarker eta_lookback eta_max_jump
              trackmarker_delta_arrived track_length utcnow now name timestamp
              trackmarker info) name) =
         map_option history
           (state_of (update_train display_trackmarker eta_lookback eta_max_jump
              trackmarker_delta_arrived track_length utcnow now name timestamp
              trackmarker' info) name) \<and>
         map_option avg_speed
           (state_of (update_train display_trackmarker eta_lookback eta_max_jump
              trackmarker_delta_arrived track_length utcnow now name timestamp
              trackmarker info) name) =
         map_option avg_speed
           (state_of (update_train display_trackmarker eta_lookback eta_max_jump
              trackmarker_delta_arrived track_length utcnow now name timestamp
              trackmarker' info) name)"
proof -
  from assms have same: "add_location timestamp p (history (stored info name))
      = history (stored info name)" for p
    by (simp add: add_location_def)
  show ?thesis
  proof (cases "calc_avg_speed (history (stored info name)) eta_lookback track_length now")
    case (Inl e)
    then show ?thesis by (simp add: same update_train_def Let_def)
  next
    case (Inr res)
    have "state_of (update_train display_trackmarker eta_lookback eta_max_jump
        trackmarker_delta_arrived track_length utcnow now name timestamp p info) =
      info(name \<mapsto> snd (estimate display_trackmarker eta_max_jump
        trackmarker_delta_arrived track_length utcnow p res
          ((stored info name)\<lparr>history := history (stored info name)\<rparr>)))" for p
      using update_train_outcome(1)[of timestamp p info name eta_lookback track_length now
          res] Inr
      by (simp add: same)
    then show ?thesis
      by (simp add: same estimate_history estimate_avg_speed)
  qed
qed

theorem duplicate_timestamp_keeps_history_and_speed_witness:
  "120 \<in> fst ` set (history (stored
      [''t'' \<mapsto> \<lparr>history = [(0, 100), (120, 200)], avg_speed = Some (5 / 6),
                  raw_eta = Some 1080, eta = Some 1080, arrived = False\<rparr>] ''t'')) \<and>
   add_location 120 300 [(0, 100), (120, 200)] = [(0, 100), (120, 200)] \<and>
   map_option avg_speed
     (state_of (update_train 0 5 10 20 1000 150 150 ''t'' 120 300
        [''t'' \<mapsto> \<lparr>history = [(0, 100), (120, 200)], avg_speed = Some (5 / 6),
                    raw_eta = Some 1080, eta = Some 1080, arrived = False\<rparr>]) ''t'') =
   map_option avg_speed
     (state_of (update_train 0 5 10 20 1000 150 150 ''t'' 120 200
        [''t'' \<mapsto> \<lparr>history = [(0, 100), (120, 200)], avg_speed = Some (5 / 6),
                    raw_eta = Some 1080, eta = Some 1080, arrived = False\<rparr>]) ''t'')"
proof -
  let ?info = "[''t'' \<mapsto> \<lparr>history = [(0, 100), (120, 200)], avg_speed = Some (5 / 6 :: rat),
      raw_eta = Some (1080 :: rat), eta = Some (1080 :: rat), arrived = False\<rparr>]"
  have h: "120 \<in> fst ` set (history (stored ?info ''t''))"
    by (simp add: stored_def)
  have s: "history (stored ?info ''t'') = [(0, 100), (120, 200)]"
    by (simp add: stored_def)
  from duplicate_timestamp_keeps_history_and_speed[OF h, of 300 0 5 10 20 1000 150 150 200]
  have "add_location 120 300 [(0, 100), (120, 200)] = [(0, 100), (120, 200)] \<and>
    map_option avg_speed
      (state_of (update_train 0 5 10 20 1000 150 150 ''t'' 120 300 ?info) ''t'') =
    map_option avg_speed
      (state_of (update_train 0 5 10 20 1000 150 150 ''t'' 120 200 ?info) ''t'')"
    unfolding s by blast
  with h show ?thesis by blast
qed

section \<open>Errors\<close>




text \<open>
  C8, as stated, fails: nothing in the loop catches an exception, so a timestamp that
  \<open>isoparse\<close> rejects ends the call at line 90. With a snapshot of two trains, the first
  with an unparseable timestamp, the second train gets no state; alone in the snapshot it
  would.
\<close>

theorem abnormal_train_counterexample:
  "get_train_info example_isoparse (ticking_clock 60)
     [(''a'', \<lparr>data_timestamp = ''yesterday'', data_trackmarker = 5\<rparr>),
      (''b'', \<lparr>data_timestamp = ''1970-01-01T00:01:00'', data_trackmarker = 7\<rparr>)]
     0 5 10 20 1000 Map.empty = Raise ValueError Map.empty \<and>
   get_train_info example_isoparse (ticking_clock 60)
     [(''b'', \<lparr>data_timestamp = ''1970-01-01T00:01:00'', data_trackmarker = 7\<rparr>)]
     0 5 10 20 1000 Map.empty =
   Return [''b'' \<mapsto> \<lparr>history = [(60, 7)], avg_speed = None, raw_eta = None,
                       eta = None, arrived = False\<rparr>]"
  by (simp add: get_train_info_def example_isoparse_def ticking_clock_def
      update_train_def stored_def new_train_def add_location_def calc_avg_speed_def
      estimate_def display_distance_def mark_arrived_def calc_raw_eta_def soft_eta_def
      timedelta_def timedelta_min_def timedelta_max_def datetime_add_def
      datetime_min_def datetime_max_def)

text \<open>
  C8, amended. A timestamp that does not parse raises \<open>ValueError\<close> to the caller and ends
  the call there: the trains before it in the snapshot have been updated, and the train
  itself and all trains after it are left as they were.
\<close>

theorem unparseable_timestamp_ends_call:
  assumes "get_train_info isoparse clock before display_trackmarker eta_lookback
             eta_max_jump trackmarker_delta_arrived track_length info = Return info'"
    and "isoparse (data_timestamp data @ ''Z'') = None"
  shows "get_train_info isoparse clock (before @ (name, data) # after) display_trackmarker
           eta_lookback eta_max_jump trackmarker_delta_arrived track_length info
         = Raise ValueError info'"
  using assms by (simp add: get_train_info_def trains_loop_append)

theorem unparseable_timestamp_ends_call_witness:
  "get_train_info example_isoparse (ticking_clock 60)
     [(''b'', \<lparr>data_timestamp = ''1970-01-01T00:01:00'', data_trackmarker = 7\<rparr>)]
     0 5 10 20 1000 Map.empty =
   Return [''b'' \<mapsto> \<lparr>history = [(60, 7)], avg_speed = None, raw_eta = None,
                       eta = None, arrived = False\<rparr>] \<and>
   example_isoparse (data_timestamp
     \<lparr>data_timestamp = ''yesterday'', data_trackmarker = 5\<rparr> @ ''Z'') = None \<and>
   get_train_info example_isoparse (ticking_clock 60)
     ([(''b'', \<lparr>data_timestamp = ''1970-01-01T00:01:00'', data_trackmarker = 7\<rparr>)] @
      (''a'', \<lparr>data_timestamp = ''yesterday'', data_trackmarker = 5\<rparr>) #
      [(''c'', \<lparr>data_timestamp = ''1970-01-01T00:00:00'', data_trackmarker = 9\<rparr>)])
     0 5 10 20 1000 Map.empty =
   Raise ValueError [''b'' \<mapsto> \<lparr>history = [(60, 7)], avg_speed = None, raw_eta = None,
                                 eta = None, arrived = False\<rparr>]"
proof -
  have h1: "get_train_info example_isoparse (ticking_clock 60)
     [(''b'', \<lparr>data_timestamp = ''1970-01-01T00:01:00'', data_trackmarker = 7\<rparr>)]
     0 5 10 20 1000 Map.empty =
   Return [''b'' \<mapsto> \<lparr>history = [(60, 7)], avg_speed = None, raw_eta = None,
                       eta = None, arrived = False\<rparr>]"
    by (simp add: get_train_info_def example_isoparse_def ticking_clock_def
        update_train_def stored_def new_train_def add_location_def calc_avg_speed_def
        estimate_def display_distance_def mark_arrived_def calc_raw_eta_def soft_eta_def
      timedelta_def timedelta_min_def timedelta_max_def datetime_add_def
      datetime_min_def datetime_max_def)
  have h2: "example_isoparse (data_timestamp
      \<lparr>data_timestamp = ''yesterday'', data_trackmarker = 5 :: rat\<rparr> @ ''Z'') = None"
    by (simp add: example_isoparse_def)
  from h1 h2 unparseable_timestamp_ends_call[OF h1 h2, of "''a''"
      "[(''c'', \<lparr>data_timestamp = ''1970-01-01T00:00:00'', data_trackmarker = 9\<rparr>)]"]
  show ?thesis by blast
qed

end
